theory Spec2Isabelle
  imports Complex_Main "HOL-Library.Word"
begin

section \<open>Token creation handler (src/pages/api/create-token-v2.ts, lines 1-423)\<close>

text \<open>
  The development embeds the default-exported \<open>handler\<close> of the improved token creation
  route. The handler is one sequential \<open>async\<close> function; every \<open>await\<close> is a call into
  an external library (\<open>@solana/web3.js\<close>, \<open>@solana/spl-token\<close>, \<open>bs58\<close>) whose code is not
  part of the repository. Those calls are the fields of the record \<open>world\<close>: each field
  says what the call returns (\<open>Inr\<close>) or which error it throws (\<open>Inl\<close>). The handler is
  then a pure function from the world and the HTTP request to the HTTP response and the
  ordered trace of what it did (network round trips, instructions added to a
  transaction, signing, the settling delay).

  Strings are \<open>char list\<close>; one \<open>char\<close> stands for one UTF-16 code unit of the
  JavaScript string, so \<open>length\<close> is JavaScript's \<open>.length\<close> on the strings that can be
  written here. A JavaScript \<open>number\<close> that arrived through JSON is a finite double, hence
  a rational; \<open>None\<close> is \<open>undefined\<close> (the field is absent from the body).
\<close>

subsection \<open>Data\<close>

type_synonym pubkey = string
type_synonym bytes = "8 word list"

text \<open>A thrown JavaScript error, reduced to what the handler reads of it: \<open>error.message\<close>.\<close>

type_synonym js_error = "string option"

text \<open>\<open>interface CreateTokenRequest\<close> (lines 66-72), as the fields of \<open>req.body\<close>.\<close>

record CreateTokenRequest =
  name :: "string option"
  symbol :: "string option"
  description :: "string option"
  prePurchaseAmount :: "rat option"
  userWallet :: "string option"

record NextApiRequest =
  req_method :: string
  body :: CreateTokenRequest

text \<open>
  \<open>interface CreateTokenResponse\<close> (lines 74-86) together with the HTTP status given to
  \<open>res.status\<close>. The echoed request fields carry the prefix \<open>res_\<close>, since a record
  field name can be declared only once.
\<close>

record CreateTokenResponse =
  status :: nat
  success :: bool
  mintAddress :: "string option"
  res_name :: "string option"
  res_symbol :: "string option"
  res_description :: "string option"
  res_prePurchaseAmount :: "rat option"
  signature :: "string option"
  mintSignature :: "string option"
  userTokenAccount :: "string option"
  error :: "string option"
  warnings :: "string list option"

text \<open>\<open>DataV2Args\<close> as the handler fills it (lines 261-269): the three remaining fields are \<open>null\<close>.\<close>

record DataV2Args =
  data_name :: string
  data_symbol :: string
  uri :: string
  sellerFeeBasisPoints :: nat

record AccountMeta =
  pubkey :: pubkey
  isSigner :: bool
  isWritable :: bool

text \<open>
  The instructions of the catalogue, one constructor for each factory the handler calls,
  with the arguments in the order of the call.
\<close>

datatype instruction =
    SetComputeUnitLimit nat
  | SetComputeUnitPrice nat
  | CreateAccount pubkey pubkey nat nat pubkey
  | InitializeMint pubkey nat pubkey pubkey pubkey
  | CreateMetadataAccountV3 pubkey "AccountMeta list" DataV2Args bool
  | CreateAssociatedTokenAccount pubkey pubkey pubkey pubkey pubkey
  | MintTo pubkey pubkey pubkey int pubkey

record Transaction =
  recentBlockhash :: string
  feePayer :: pubkey
  instructions :: "instruction list"
  signers :: "pubkey list"

text \<open>What the handler does, in order.\<close>

datatype event =
    NetGetMinimumBalanceForRentExemption
  | NetGetBalance pubkey
  | NetGetLatestBlockhash
  | TxAdd nat instruction
  | TxSign nat "pubkey list"
  | NetSendRawTransaction bytes
  | NetConfirmTransaction string string nat
  | Delay nat

text \<open>
  The external collaborators. \<open>keypairFromSecret\<close> is \<open>bs58.decode\<close> followed by
  \<open>Keypair.fromSecretKey\<close> and gives the public key of the custodial signer;
  \<open>newPublicKey\<close> is the \<open>PublicKey\<close> constructor; both give \<open>None\<close> where they throw.
  \<open>getLatestBlockhash\<close> takes the number of the call (0 for the first phase, 1 for the
  second), since the chain moves between the two calls. \<open>confirmTransaction\<close> resolves to
  the \<open>err\<close> field of the signature status, which the handler never reads.
  \<open>toFixed3\<close> is the floating-point expression
  \<open>(requiredLamports / LAMPORTS_PER_SOL).toFixed(3)\<close> and \<open>bigIntError\<close> the
  \<open>RangeError\<close> that \<open>BigInt\<close> throws on a number that is not an integer.
\<close>

record world =
  env_BACKEND_KEYPAIR_SECRET :: "string option"
  keypairFromSecret :: "string \<Rightarrow> pubkey option"
  newPublicKey :: "string \<Rightarrow> pubkey option"
  keypairGenerate :: pubkey
  getMinimumBalanceForRentExemptMint :: "js_error + nat"
  getBalance :: "pubkey \<Rightarrow> js_error + nat"
  getLatestBlockhash :: "nat \<Rightarrow> js_error + (string \<times> nat)"
  findProgramAddressSync :: "pubkey \<Rightarrow> pubkey"
  getAssociatedTokenAddress :: "pubkey \<Rightarrow> pubkey \<Rightarrow> js_error + pubkey"
  serialize :: "Transaction \<Rightarrow> js_error + bytes"
  sendRawTransaction :: "bytes \<Rightarrow> js_error + string"
  confirmTransaction :: "string \<Rightarrow> string \<Rightarrow> nat \<Rightarrow> js_error + string option"
  toFixed3 :: "nat \<Rightarrow> string"
  bigIntError :: "rat \<Rightarrow> js_error"

subsection \<open>Constants\<close>

definition TOKEN_METADATA_PROGRAM_ID :: pubkey where
  "TOKEN_METADATA_PROGRAM_ID = ''metaqbxxUerdq28cj1RbAWkYQm3ybzjb6a8bt518x1s''"

definition MAX_TRANSACTION_SIZE :: nat where
  "MAX_TRANSACTION_SIZE = 1232"

definition COMPUTE_UNIT_LIMIT :: nat where
  "COMPUTE_UNIT_LIMIT = 400000"

definition COMPUTE_UNIT_PRICE :: nat where
  "COMPUTE_UNIT_PRICE = 1"

text \<open>src/lib/constants.ts, lines 11-12.\<close>

definition TOKEN_DECIMALS :: nat where
  "TOKEN_DECIMALS = 9"

definition MAX_PREPURCHASE_AMOUNT :: rat where
  "MAX_PREPURCHASE_AMOUNT = 1000000000"

text \<open>Constants of the imported libraries, with the values the libraries give them.\<close>

definition LAMPORTS_PER_SOL :: nat where
  "LAMPORTS_PER_SOL = 1000000000"

definition MINT_SIZE :: nat where
  "MINT_SIZE = 82"

definition TOKEN_PROGRAM_ID :: pubkey where
  "TOKEN_PROGRAM_ID = ''TokenkegQfeZyiNwAJbNbGKPFXCWuBvf9Ss623VQ5DA''"

definition SystemProgram_programId :: pubkey where
  "SystemProgram_programId = ''11111111111111111111111111111111''"

definition SYSVAR_RENT_PUBKEY :: pubkey where
  "SYSVAR_RENT_PUBKEY = ''SysvarRent111111111111111111111111111111111''"

text \<open>
  \<open>Math.ceil(0.01 * LAMPORTS_PER_SOL)\<close> (line 196): the double nearest to 0.01 times
  \<open>10^9\<close> rounds to the double \<open>10000000\<close>, which \<open>Math.ceil\<close> leaves unchanged.
\<close>

definition FEE_BUFFER :: nat where
  "FEE_BUFFER = 10000000"

subsection \<open>JavaScript helpers\<close>

text \<open>\<open>!x\<close> on a string that may be \<open>undefined\<close>: true when absent or empty.\<close>

definition falsy :: "string option \<Rightarrow> bool" where
  "falsy x = (case x of None \<Rightarrow> True | Some s \<Rightarrow> s = [])"

text \<open>\<open>x.length > n\<close>; the \<open>length\<close> of an absent field is \<open>undefined\<close>, which exceeds nothing.\<close>

definition length_gt :: "string option \<Rightarrow> nat \<Rightarrow> bool" where
  "length_gt x n = (case x of None \<Rightarrow> False | Some s \<Rightarrow> length s > n)"

text \<open>\<open>s.substring(0, n)\<close>.\<close>

definition substring0 :: "string \<Rightarrow> nat \<Rightarrow> string" where
  "substring0 s n = take n s"

fun startsWith :: "string \<Rightarrow> string \<Rightarrow> bool" where
  "startsWith s [] = True"
| "startsWith [] (p # ps) = False"
| "startsWith (c # cs) (p # ps) = (c = p \<and> startsWith cs ps)"

text \<open>\<open>s.includes(p)\<close>.\<close>

fun str_includes :: "string \<Rightarrow> string \<Rightarrow> bool" where
  "str_includes [] p = (p = [])"
| "str_includes (c # cs) p = (startsWith (c # cs) p \<or> str_includes cs p)"

text \<open>
  The decimal numeral of a non-negative integer, as a template literal prints it;
  \<open>digit_char\<close> is only applied to a digit below ten.
\<close>

definition digit_char :: "nat \<Rightarrow> char" where
  "digit_char d = ''0123456789'' ! d"

function show_nat :: "nat \<Rightarrow> string" where
  "show_nat n = (if n < 10 then [digit_char n] else show_nat (n div 10) @ [digit_char (n mod 10)])"
  by pat_completeness auto
termination
  by (relation "measure id") auto

declare show_nat.simps [simp del]

text \<open>
  \<open>BigInt(x)\<close> on a number: the integer itself, and a \<open>RangeError\<close> (\<open>None\<close>) when \<open>x\<close>
  has a fractional part.
\<close>

definition BigInt :: "rat \<Rightarrow> int option" where
  "BigInt x = (if of_int \<lfloor>x\<rfloor> = x then Some \<lfloor>x\<rfloor> else None)"

text \<open>
  \<open>String.prototype.toUpperCase\<close> on the ASCII letters, as the client form applies it to
  the ticker (src/components/TokenCreationForm.tsx, line 69).
\<close>

definition upper_char :: "char \<Rightarrow> char" where
  "upper_char c =
     (case map_of (zip ''abcdefghijklmnopqrstuvwxyz'' ''ABCDEFGHIJKLMNOPQRSTUVWXYZ'') c of
        None \<Rightarrow> c
      | Some u \<Rightarrow> u)"

definition toUpperCase :: "string \<Rightarrow> string" where
  "toUpperCase s = map upper_char s"

subsection \<open>Responses\<close>

definition failure :: "nat \<Rightarrow> string \<Rightarrow> CreateTokenResponse" where
  "failure code msg =
     \<lparr> status = code, success = False, mintAddress = None, res_name = None,
       res_symbol = None, res_description = None, res_prePurchaseAmount = None,
       signature = None, mintSignature = None, userTokenAccount = None,
       error = Some msg, warnings = None \<rparr>"

text \<open>The \<open>catch\<close> block (lines 404-422).\<close>

definition catch_block :: "js_error \<Rightarrow> CreateTokenResponse" where
  "catch_block e =
     (let errorMessage =
            (case e of None \<Rightarrow> ''Failed to create token''
             | Some m \<Rightarrow> if m = [] then ''Failed to create token'' else m);
          includes_msg = (\<lambda>p. case e of None \<Rightarrow> False | Some m \<Rightarrow> str_includes m p);
          errorMessage' =
            (if includes_msg ''blockhash not found'' then ''Transaction expired. Please try again.''
             else if includes_msg ''insufficient funds''
               then ''Insufficient SOL in backend wallet. Please fund it.''
             else if includes_msg ''Transaction too large''
               then ''Transaction too large. Use shorter name/symbol.''
             else errorMessage)
      in failure 500 errorMessage')"

subsection \<open>Validation (lines 110-142)\<close>

text \<open>The warnings pushed at lines 133-135.\<close>

definition collect_warnings :: "CreateTokenRequest \<Rightarrow> string list" where
  "collect_warnings b =
     (if \<not> falsy (description b) \<and> length_gt (description b) 200
      then [''Description truncated to 200 characters to fit transaction size limit'']
      else [])"

text \<open>
  The early returns of lines 111-142, in the order of the source; \<open>None\<close> when the
  request passes all of them; \<open>undefined < 0\<close> is false.
\<close>

definition validate :: "CreateTokenRequest \<Rightarrow> CreateTokenResponse option" where
  "validate b =
     (if falsy (name b) \<or> falsy (symbol b) \<or> falsy (userWallet b)
      then Some (failure 400 ''Missing required fields: name, symbol, or userWallet'')
      else if length_gt (name b) 32
      then Some (failure 400
             ''Token name must be 32 characters or less (Solana transaction size limit)'')
      else if length_gt (symbol b) 10
      then Some (failure 400 ''Symbol must be 10 characters or less'')
      else if (case prePurchaseAmount b of None \<Rightarrow> False | Some x \<Rightarrow> x < 0)
      then Some (failure 400 ''Pre-purchase amount cannot be negative'')
      else None)"

subsection \<open>Control flow\<close>

text \<open>
  How a stretch of the handler's \<open>try\<close> block ends: an error is thrown (and reaches the
  \<open>catch\<close> block), the handler returns a response, or control falls through with the
  values computed so far.
\<close>

datatype 'a outcome = Throw js_error | Return CreateTokenResponse | Continue 'a

text \<open>
  A required string field after validation has found it present (\<open>validate\<close> returns
  before any use when the field is absent).
\<close>

definition str_of :: "string option \<Rightarrow> string" where
  "str_of x = (case x of None \<Rightarrow> [] | Some s \<Rightarrow> s)"

text \<open>\<open>const decimals = 9\<close> (line 189).\<close>

definition decimals :: nat where
  "decimals = 9"

subsection \<open>Instruction catalogue\<close>

text \<open>\<open>buildCreateMetadataAccountV3Instruction\<close> (lines 31-59); \<open>isMutable ?? true\<close>.\<close>

definition buildCreateMetadataAccountV3Instruction ::
  "pubkey \<Rightarrow> pubkey \<Rightarrow> pubkey \<Rightarrow> pubkey \<Rightarrow> pubkey \<Rightarrow> DataV2Args \<Rightarrow> bool option \<Rightarrow> instruction" where
  "buildCreateMetadataAccountV3Instruction metadataPda mint mintAuthority payer updateAuthority
      data isMutable =
     CreateMetadataAccountV3 TOKEN_METADATA_PROGRAM_ID
       [\<lparr> pubkey = metadataPda, isSigner = False, isWritable = True \<rparr>,
        \<lparr> pubkey = mint, isSigner = False, isWritable = False \<rparr>,
        \<lparr> pubkey = mintAuthority, isSigner = True, isWritable = False \<rparr>,
        \<lparr> pubkey = payer, isSigner = True, isWritable = True \<rparr>,
        \<lparr> pubkey = updateAuthority, isSigner = False, isWritable = False \<rparr>,
        \<lparr> pubkey = SystemProgram_programId, isSigner = False, isWritable = False \<rparr>,
        \<lparr> pubkey = SYSVAR_RENT_PUBKEY, isSigner = False, isWritable = False \<rparr>]
       data
       (case isMutable of None \<Rightarrow> True | Some m \<Rightarrow> m)"

text \<open>\<open>metadataData\<close> (lines 261-269).\<close>

definition metadataData :: "CreateTokenRequest \<Rightarrow> DataV2Args" where
  "metadataData b =
     \<lparr> data_name = substring0 (str_of (name b)) 32,
       data_symbol = substring0 (str_of (symbol b)) 10,
       uri = [],
       sellerFeeBasisPoints = 0 \<rparr>"

text \<open>The five instructions added to \<open>tx1\<close> (lines 216-280), in order.\<close>

definition tx1_instructions :: "world \<Rightarrow> CreateTokenRequest \<Rightarrow> pubkey \<Rightarrow> pubkey \<Rightarrow> nat \<Rightarrow> instruction list" where
  "tx1_instructions w b backend mint lamports =
     [SetComputeUnitLimit COMPUTE_UNIT_LIMIT,
      SetComputeUnitPrice COMPUTE_UNIT_PRICE,
      CreateAccount backend mint MINT_SIZE lamports TOKEN_PROGRAM_ID,
      InitializeMint mint decimals backend backend TOKEN_PROGRAM_ID,
      buildCreateMetadataAccountV3Instruction (findProgramAddressSync w mint) mint backend
        backend backend (metadataData b) None]"

definition tx1_of :: "world \<Rightarrow> CreateTokenRequest \<Rightarrow> pubkey \<Rightarrow> pubkey \<Rightarrow> nat \<Rightarrow> string \<Rightarrow> Transaction" where
  "tx1_of w b backend mint lamports blockhash =
     \<lparr> recentBlockhash = blockhash, feePayer = backend,
       instructions = tx1_instructions w b backend mint lamports,
       signers = [backend, mint] \<rparr>"

subsection \<open>Phase 1: mint and metadata (lines 206-311)\<close>

definition phase1 :: "world \<Rightarrow> CreateTokenRequest \<Rightarrow> pubkey \<Rightarrow> pubkey \<Rightarrow> nat \<Rightarrow> string outcome \<times> event list" where
  "phase1 w b backend mint lamports =
     (case getLatestBlockhash w 0 of
        Inl e \<Rightarrow> (Throw e, [NetGetLatestBlockhash])
      | Inr (blockhash, lastValidBlockHeight) \<Rightarrow>
          (let tx1 = tx1_of w b backend mint lamports blockhash;
               built = NetGetLatestBlockhash # map (TxAdd 1) (instructions tx1)
                         @ [TxSign 1 (signers tx1)]
           in (case serialize w tx1 of
                 Inl e \<Rightarrow> (Throw e, built)
               | Inr wire \<Rightarrow>
                   (if length wire > MAX_TRANSACTION_SIZE
                    then (Return (failure 400
                            (''Transaction too large ('' @ show_nat (length wire)
                               @ '' bytes). Try shorter name/symbol.'')), built)
                    else (case sendRawTransaction w wire of
                            Inl e \<Rightarrow> (Throw e, built @ [NetSendRawTransaction wire])
                          | Inr sig \<Rightarrow>
                              (case confirmTransaction w sig blockhash lastValidBlockHeight of
                                 Inl e \<Rightarrow>
                                   (Throw e, built @ [NetSendRawTransaction wire,
                                      NetConfirmTransaction sig blockhash lastValidBlockHeight])
                               | Inr _ \<Rightarrow>
                                   (Continue sig, built @ [NetSendRawTransaction wire,
                                      NetConfirmTransaction sig blockhash
                                        lastValidBlockHeight])))))))"

subsection \<open>Phase 2: associated account and mint-to (lines 313-389)\<close>

text \<open>\<open>BigInt(prePurchaseAmount) * BigInt(10 ** decimals)\<close> (line 357).\<close>

definition mint_amount :: "rat \<Rightarrow> int option" where
  "mint_amount x = (case BigInt x of None \<Rightarrow> None | Some n \<Rightarrow> Some (n * 10 ^ decimals))"

definition phase2 :: "world \<Rightarrow> rat \<Rightarrow> pubkey \<Rightarrow> pubkey \<Rightarrow> pubkey \<Rightarrow> (pubkey \<times> string) outcome \<times> event list" where
  "phase2 w x backend mint user =
     (case getLatestBlockhash w 1 of
        Inl e \<Rightarrow> (Throw e, [Delay 1000, NetGetLatestBlockhash])
      | Inr (blockhash2, lastValidBlockHeight2) \<Rightarrow>
          (let i1 = SetComputeUnitLimit 200000;
               t1 = [Delay 1000, NetGetLatestBlockhash, TxAdd 2 i1]
           in (case getAssociatedTokenAddress w mint user of
                 Inl e \<Rightarrow> (Throw e, t1)
               | Inr uta \<Rightarrow>
                   (let i2 = CreateAssociatedTokenAccount backend uta user mint TOKEN_PROGRAM_ID;
                        t2 = t1 @ [TxAdd 2 i2]
                    in (case mint_amount x of
                          None \<Rightarrow> (Throw (bigIntError w x), t2)
                        | Some amount \<Rightarrow>
                            (let i3 = MintTo mint uta backend amount TOKEN_PROGRAM_ID;
                                 tx2 = \<lparr> recentBlockhash = blockhash2, feePayer = backend,
                                         instructions = [i1, i2, i3], signers = [backend] \<rparr>;
                                 t3 = t2 @ [TxAdd 2 i3, TxSign 2 (signers tx2)]
                             in (case serialize w tx2 of
                                   Inl e \<Rightarrow> (Throw e, t3)
                                 | Inr wire \<Rightarrow>
                                     (case sendRawTransaction w wire of
                                        Inl e \<Rightarrow> (Throw e, t3 @ [NetSendRawTransaction wire])
                                      | Inr sig \<Rightarrow>
                                          (case confirmTransaction w sig blockhash2
                                                  lastValidBlockHeight2 of
                                             Inl e \<Rightarrow>
                                               (Throw e, t3 @ [NetSendRawTransaction wire,
                                                  NetConfirmTransaction sig blockhash2
                                                    lastValidBlockHeight2])
                                           | Inr _ \<Rightarrow>
                                               (Continue (uta, sig),
                                                t3 @ [NetSendRawTransaction wire,
                                                  NetConfirmTransaction sig blockhash2
                                                    lastValidBlockHeight2]))))))))))"

subsection \<open>The handler\<close>

text \<open>The success response (lines 392-403).\<close>

definition success_response ::
  "CreateTokenRequest \<Rightarrow> pubkey \<Rightarrow> string \<Rightarrow> (pubkey \<times> string) option \<Rightarrow> CreateTokenResponse" where
  "success_response b mint sig second =
     \<lparr> status = 200, success = True, mintAddress = Some mint, res_name = name b,
       res_symbol = symbol b, res_description = description b,
       res_prePurchaseAmount = prePurchaseAmount b, signature = Some sig,
       mintSignature = map_option snd second, userTokenAccount = map_option fst second,
       error = None,
       warnings = (if length (collect_warnings b) > 0 then Some (collect_warnings b) else None) \<rparr>"

text \<open>
  Lines 184-403: from the rent and balance queries to the success response, once the
  custodial signer and the requester's key are known.
\<close>

definition create_token :: "world \<Rightarrow> CreateTokenRequest \<Rightarrow> pubkey \<Rightarrow> pubkey \<Rightarrow> (js_error + CreateTokenResponse) \<times> event list" where
  "create_token w b backend user =
     (let mint = keypairGenerate w in
      (case getMinimumBalanceForRentExemptMint w of
         Inl e \<Rightarrow> (Inl e, [NetGetMinimumBalanceForRentExemption])
       | Inr lamports \<Rightarrow>
           (let t0 = [NetGetMinimumBalanceForRentExemption, NetGetBalance backend] in
            (case getBalance w backend of
               Inl e \<Rightarrow> (Inl e, t0)
             | Inr backendBalance \<Rightarrow>
                 (let requiredLamports = lamports + FEE_BUFFER in
                  (if backendBalance < requiredLamports
                   then (Inr (failure 400
                           (''Backend wallet has insufficient SOL (need at least ''
                              @ toFixed3 w requiredLamports
                              @ '' SOL). Please fund the backend wallet.'')), t0)
                   else (case phase1 w b backend mint lamports of
                           (Throw e, t1) \<Rightarrow> (Inl e, t0 @ t1)
                         | (Return r, t1) \<Rightarrow> (Inr r, t0 @ t1)
                         | (Continue sig, t1) \<Rightarrow>
                             (case prePurchaseAmount b of
                                None \<Rightarrow> (Inr (success_response b mint sig None), t0 @ t1)
                              | Some x \<Rightarrow>
                                  (if x > 0
                                   then (case phase2 w x backend mint user of
                                           (Throw e, t2) \<Rightarrow> (Inl e, t0 @ t1 @ t2)
                                         | (Return r, t2) \<Rightarrow> (Inr r, t0 @ t1 @ t2)
                                         | (Continue second, t2) \<Rightarrow>
                                             (Inr (success_response b mint sig (Some second)),
                                              t0 @ t1 @ t2))
                                   else (Inr (success_response b mint sig None),
                                         t0 @ t1))))))))))"

text \<open>Lines 106-182: validation, the custodial signer, the requester's key.\<close>

definition try_block :: "world \<Rightarrow> CreateTokenRequest \<Rightarrow> (js_error + CreateTokenResponse) \<times> event list" where
  "try_block w b =
     (case validate b of
        Some r \<Rightarrow> (Inr r, [])
      | None \<Rightarrow>
          (if falsy (env_BACKEND_KEYPAIR_SECRET w)
           then (Inr (failure 500 ''Backend keypair not configured''), [])
           else (case keypairFromSecret w (str_of (env_BACKEND_KEYPAIR_SECRET w)) of
                   None \<Rightarrow> (Inr (failure 500 ''Invalid backend keypair format''), [])
                 | Some backend \<Rightarrow>
                     (case newPublicKey w (str_of (userWallet b)) of
                        None \<Rightarrow> (Inr (failure 400 ''Invalid user wallet address''), [])
                      | Some user \<Rightarrow> create_token w b backend user))))"

text \<open>
  \<open>handler\<close> (lines 96-423): the response sent and the trace of what was done. Every
  path through the \<open>try\<close> block returns a response (\<open>Inr\<close>) or throws (\<open>Inl\<close>).
\<close>

definition handler :: "world \<Rightarrow> NextApiRequest \<Rightarrow> CreateTokenResponse \<times> event list" where
  "handler w req =
     (if req_method req \<noteq> ''POST'' then (failure 405 ''Method not allowed'', [])
      else (case try_block w (body req) of
              (Inl e, t) \<Rightarrow> (catch_block e, t)
            | (Inr r, t) \<Rightarrow> (r, t)))"

subsection \<open>Reading a trace\<close>

text \<open>The wire transactions handed to \<open>sendRawTransaction\<close>, in order.\<close>

fun submissions :: "event list \<Rightarrow> bytes list" where
  "submissions [] = []"
| "submissions (NetSendRawTransaction wire # es) = wire # submissions es"
| "submissions (_ # es) = submissions es"

text \<open>The instructions added to a transaction, in order.\<close>

fun built_instructions :: "event list \<Rightarrow> instruction list" where
  "built_instructions [] = []"
| "built_instructions (TxAdd _ i # es) = i # built_instructions es"
| "built_instructions (_ # es) = built_instructions es"

text \<open>The amounts of the mint-to instructions among a list of instructions.\<close>

fun mint_to_amounts :: "instruction list \<Rightarrow> int list" where
  "mint_to_amounts [] = []"
| "mint_to_amounts (MintTo _ _ _ amount _ # is) = amount # mint_to_amounts is"
| "mint_to_amounts (_ # is) = mint_to_amounts is"

text \<open>The metadata payloads of the create-metadata instructions among a list of instructions.\<close>

fun metadata_payloads :: "instruction list \<Rightarrow> DataV2Args list" where
  "metadata_payloads [] = []"
| "metadata_payloads (CreateMetadataAccountV3 _ _ d _ # is) = d # metadata_payloads is"
| "metadata_payloads (_ # is) = metadata_payloads is"

text \<open>
  Whether the custodial balance is queried before the first instruction is added: the
  scan stops with \<open>True\<close> at a balance query and with \<open>False\<close> at an instruction.
\<close>

fun balance_queried_first :: "event list \<Rightarrow> bool" where
  "balance_queried_first [] = True"
| "balance_queried_first (NetGetBalance _ # es) = True"
| "balance_queried_first (TxAdd _ _ # es) = False"
| "balance_queried_first (_ # es) = balance_queried_first es"

subsection \<open>Stages of a request\<close>

text \<open>
  The request passes lines 100-182: it is a POST, validation returns nothing, the
  custodial key is configured and decodes to \<open>backend\<close>, and the requester's wallet
  parses to \<open>user\<close>.
\<close>

definition reaches_create_token :: "world \<Rightarrow> NextApiRequest \<Rightarrow> pubkey \<Rightarrow> pubkey \<Rightarrow> bool" where
  "reaches_create_token w req backend user =
     (req_method req = ''POST''
      \<and> validate (body req) = None
      \<and> \<not> falsy (env_BACKEND_KEYPAIR_SECRET w)
      \<and> keypairFromSecret w (str_of (env_BACKEND_KEYPAIR_SECRET w)) = Some backend
      \<and> newPublicKey w (str_of (userWallet (body req))) = Some user)"

text \<open>
  The pre-flight check of lines 192-204 passes: the rent query answers \<open>lamports\<close> and
  the balance query answers at least \<open>lamports + FEE_BUFFER\<close>.
\<close>

definition funded :: "world \<Rightarrow> pubkey \<Rightarrow> nat \<Rightarrow> bool" where
  "funded w backend lamports =
     (getMinimumBalanceForRentExemptMint w = Inr lamports
      \<and> (case getBalance w backend of
            Inl e \<Rightarrow> False
          | Inr backendBalance \<Rightarrow> \<not> backendBalance < lamports + FEE_BUFFER))"


subsection \<open>Sample worlds and requests\<close>

text \<open>
  A world in which every collaborator answers: the custodial signer is funded, a
  transaction of \<open>k\<close> instructions serialises to \<open>100 * k\<close> bytes, every submission is
  accepted and confirmed.
\<close>

definition world_ok :: world where
  "world_ok =
     \<lparr> env_BACKEND_KEYPAIR_SECRET = Some ''secret'',
       keypairFromSecret = (\<lambda>s. Some ''Backend''),
       newPublicKey = (\<lambda>s. Some s),
       keypairGenerate = ''Mint'',
       getMinimumBalanceForRentExemptMint = Inr 1461600,
       getBalance = (\<lambda>k. Inr 2000000000),
       getLatestBlockhash = (\<lambda>n. Inr (''hash'', 100 + n)),
       findProgramAddressSync = (\<lambda>m. ''Metadata''),
       getAssociatedTokenAddress = (\<lambda>m u. Inr ''Ata''),
       serialize = (\<lambda>tx. Inr (replicate (100 * length (instructions tx)) 0)),
       sendRawTransaction = (\<lambda>wire. Inr (if length wire = 500 then ''sig1'' else ''sig2'')),
       confirmTransaction = (\<lambda>sig blockhash height. Inr None),
       toFixed3 = (\<lambda>n. ''0.011''),
       bigIntError = (\<lambda>x. Some ''The number cannot be converted to a BigInt'') \<rparr>"

text \<open>As \<open>world_ok\<close>, but the second submission is refused by the cluster.\<close>

definition world_phase2_rejected :: world where
  "world_phase2_rejected =
     world_ok\<lparr>sendRawTransaction :=
       (\<lambda>wire. if length wire = 500 then Inr ''sig1''
               else Inl (Some ''failed to send transaction''))\<rparr>"



text \<open>As \<open>world_ok\<close>, but the custodial signer holds one lamport less than required.\<close>

definition world_poor :: world where
  "world_poor = world_ok\<lparr>getBalance := (\<lambda>k. Inr 11461599)\<rparr>"

definition sample_body :: CreateTokenRequest where
  "sample_body =
     \<lparr> name = Some ''Test Token'', symbol = Some ''TEST'', description = Some ''A test token'',
       prePurchaseAmount = Some 1000, userWallet = Some ''User'' \<rparr>"

text \<open>A request that leaves \<open>prePurchaseAmount\<close> out.\<close>

definition no_amount_body :: CreateTokenRequest where
  "no_amount_body =
     \<lparr> name = Some ''No Mint Token'', symbol = Some ''NOMINT'', description = None,
       prePurchaseAmount = None, userWallet = Some ''User'' \<rparr>"

definition post :: "CreateTokenRequest \<Rightarrow> NextApiRequest" where
  "post b = \<lparr> req_method = ''POST'', body = b \<rparr>"

section \<open>Properties\<close>

subsection \<open>Facts about traces\<close>

lemma submissions_append: "submissions (xs @ ys) = submissions xs @ submissions ys"
  by (induction xs rule: submissions.induct) simp_all

lemma built_instructions_append:
  "built_instructions (xs @ ys) = built_instructions xs @ built_instructions ys"
  by (induction xs rule: built_instructions.induct) simp_all

lemma mint_to_amounts_append:
  "mint_to_amounts (xs @ ys) = mint_to_amounts xs @ mint_to_amounts ys"
  by (induction xs rule: mint_to_amounts.induct) simp_all

lemma metadata_payloads_append:
  "metadata_payloads (xs @ ys) = metadata_payloads xs @ metadata_payloads ys"
  by (induction xs rule: metadata_payloads.induct) simp_all

lemma submissions_TxAdd: "submissions (map (TxAdd k) is) = []"
  by (induction "is") simp_all

lemma built_instructions_TxAdd: "built_instructions (map (TxAdd k) is) = is"
  by (induction "is") simp_all

lemmas trace_simps = submissions_append built_instructions_append mint_to_amounts_append
  metadata_payloads_append submissions_TxAdd built_instructions_TxAdd

subsection \<open>The stages unfolded\<close>

lemma handler_reaches_create_token:
  assumes "reaches_create_token w req backend user"
  shows "handler w req =
           (case create_token w (body req) backend user of
              (Inl e, t) \<Rightarrow> (catch_block e, t)
            | (Inr r, t) \<Rightarrow> (r, t))"
  using assms by (simp add: reaches_create_token_def handler_def try_block_def)

lemma catch_block_fields:
  "status (catch_block e) = 500" "success (catch_block e) = False"
  "mintAddress (catch_block e) = None" "signature (catch_block e) = None"
  "mintSignature (catch_block e) = None" "userTokenAccount (catch_block e) = None"
  "res_prePurchaseAmount (catch_block e) = None" "res_description (catch_block e) = None"
  "res_symbol (catch_block e) = None" "warnings (catch_block e) = None"
  by (simp_all add: catch_block_def Let_def failure_def)

lemma phase1_trace_submissions:
  assumes "phase1 w b backend mint lamports = (r, t)"
  shows "(submissions t = [] \<and> (\<forall>sig. r \<noteq> Continue sig))
       \<or> (\<exists>wire. submissions t = [wire] \<and> length wire \<le> MAX_TRANSACTION_SIZE)"
  using assms
  by (auto simp: phase1_def Let_def trace_simps split: sum.splits prod.splits if_splits)

lemma phase1_trace_built:
  assumes "phase1 w b backend mint lamports = (r, t)"
  shows "(built_instructions t = [] \<and> (\<forall>sig. r \<noteq> Continue sig))
       \<or> built_instructions t = tx1_instructions w b backend mint lamports"
  using assms
  by (auto simp: phase1_def Let_def trace_simps tx1_of_def split: sum.splits prod.splits if_splits)

lemma phase2_trace_payloads:
  assumes "phase2 w x backend mint user = (r, t)"
  shows "metadata_payloads (built_instructions t) = []"
  using assms
  by (auto simp: phase2_def Let_def split: sum.splits prod.splits option.splits)

lemma phase2_trace_amounts:
  assumes "phase2 w x backend mint user = (r, t)"
  shows "(mint_to_amounts (built_instructions t) = [] \<and> (\<forall>v. r \<noteq> Continue v))
       \<or> (\<exists>amount. mint_amount x = Some amount
              \<and> mint_to_amounts (built_instructions t) = [amount])"
  using assms
  by (auto simp: phase2_def Let_def split: sum.splits prod.splits option.splits)

lemma tx1_payloads:
  "metadata_payloads (tx1_instructions w b backend mint lamports) = [metadataData b]"
  by (simp add: tx1_instructions_def buildCreateMetadataAccountV3Instruction_def)

lemma tx1_amounts:
  "mint_to_amounts (tx1_instructions w b backend mint lamports) = []"
  by (simp add: tx1_instructions_def buildCreateMetadataAccountV3Instruction_def)

lemma balance_queried_first_handler: "balance_queried_first (snd (handler w req))"
  by (simp add: handler_def try_block_def create_token_def Let_def
           split: sum.splits prod.splits option.splits outcome.splits)


lemma handler_payloads:
  "metadata_payloads (built_instructions (snd (handler w req))) = []
   \<or> (validate (body req) = None
       \<and> metadata_payloads (built_instructions (snd (handler w req))) = [metadataData (body req)])"
  by (auto simp: handler_def try_block_def create_token_def Let_def built_instructions_append
         metadata_payloads_append tx1_payloads
           split: sum.splits prod.splits option.splits outcome.splits
           dest!: phase1_trace_built phase2_trace_payloads)

lemma create_token_funded:
  assumes "funded w backend lamports"
  shows "create_token w b backend user =
     (case phase1 w b backend (keypairGenerate w) lamports of
        (Throw e, t1) \<Rightarrow>
          (Inl e, [NetGetMinimumBalanceForRentExemption, NetGetBalance backend] @ t1)
      | (Return r, t1) \<Rightarrow>
          (Inr r, [NetGetMinimumBalanceForRentExemption, NetGetBalance backend] @ t1)
      | (Continue sig, t1) \<Rightarrow>
          (case prePurchaseAmount b of
             None \<Rightarrow>
               (Inr (success_response b (keypairGenerate w) sig None),
                [NetGetMinimumBalanceForRentExemption, NetGetBalance backend] @ t1)
           | Some x \<Rightarrow>
               (if x > 0
                then (case phase2 w x backend (keypairGenerate w) user of
                        (Throw e, t2) \<Rightarrow>
                          (Inl e, [NetGetMinimumBalanceForRentExemption, NetGetBalance backend]
                                    @ t1 @ t2)
                      | (Return r, t2) \<Rightarrow>
                          (Inr r, [NetGetMinimumBalanceForRentExemption, NetGetBalance backend]
                                    @ t1 @ t2)
                      | (Continue second, t2) \<Rightarrow>
                          (Inr (success_response b (keypairGenerate w) sig (Some second)),
                           [NetGetMinimumBalanceForRentExemption, NetGetBalance backend]
                             @ t1 @ t2))
                else (Inr (success_response b (keypairGenerate w) sig None),
                      [NetGetMinimumBalanceForRentExemption, NetGetBalance backend] @ t1))))"
  using assms by (simp add: funded_def create_token_def Let_def split: sum.splits)

lemmas eval_defs = handler_def try_block_def create_token_def phase1_def phase2_def validate_def
  failure_def success_response_def collect_warnings_def falsy_def length_gt_def str_of_def
  tx1_of_def tx1_instructions_def buildCreateMetadataAccountV3Instruction_def metadataData_def
  mint_amount_def catch_block_def substring0_def post_def sample_body_def world_ok_def
  reaches_create_token_def funded_def
  MAX_TRANSACTION_SIZE_def FEE_BUFFER_def decimals_def Let_def

lemma BigInt_of_int: "BigInt (of_int n) = Some n"
  by (simp add: BigInt_def)

lemma BigInt_1000: "BigInt 1000 = Some 1000"
  using BigInt_of_int [of 1000] by simp

subsection \<open>Validation\<close>


lemma validate_long_name_or_symbol:
  "length_gt (name b) 32 \<or> length_gt (symbol b) 10 \<Longrightarrow>
   \<exists>msg. validate b = Some (failure 400 msg)"
  by (auto simp: validate_def)

text \<open>
  C6: every POST request whose name is longer than 32 characters or whose symbol is longer
  than 10 characters is answered with HTTP 400 and \<open>success = false\<close>, and the handler
  makes no network call (indeed does nothing at all: the trace is empty).
\<close>

theorem long_name_or_symbol_rejected:
  assumes "req_method req = ''POST''"
    and "length_gt (name (body req)) 32 \<or> length_gt (symbol (body req)) 10"
  shows "status (fst (handler w req)) = 400
       \<and> \<not> success (fst (handler w req))
       \<and> snd (handler w req) = []"
proof -
  obtain msg where "validate (body req) = Some (failure 400 msg)"
    using validate_long_name_or_symbol [OF assms(2)] by blast
  then show ?thesis
    using assms(1) by (simp add: handler_def try_block_def failure_def)
qed

theorem long_name_or_symbol_rejected_witness:
  "req_method (post (sample_body\<lparr>symbol := Some ''TOOLONGTICKER''\<rparr>)) = ''POST''
   \<and> length_gt (symbol (body (post (sample_body\<lparr>symbol := Some ''TOOLONGTICKER''\<rparr>)))) 10
   \<and> status (fst (handler world_ok (post (sample_body\<lparr>symbol := Some ''TOOLONGTICKER''\<rparr>)))) = 400
   \<and> snd (handler world_ok (post (sample_body\<lparr>symbol := Some ''TOOLONGTICKER''\<rparr>))) = []"
proof -
  have m: "req_method (post (sample_body\<lparr>symbol := Some ''TOOLONGTICKER''\<rparr>)) = ''POST''"
    by (simp add: post_def)
  have l: "length_gt (symbol (body (post (sample_body\<lparr>symbol := Some ''TOOLONGTICKER''\<rparr>)))) 10"
    by (simp add: post_def length_gt_def)
  show ?thesis
    using m l long_name_or_symbol_rejected [OF m disjI2 [OF l], of world_ok] by simp
qed

subsection \<open>A failed second phase\<close>

text \<open>
  C1 (as amended): when the request reaches phase 1, phase 1 is confirmed, a positive
  pre-purchase amount is asked for and phase 2 throws (at its blockhash query, the
  address derivation, the amount conversion, serialisation, submission or confirmation),
  the handler answers through its \<open>catch\<close> block: HTTP 500 with \<open>success = false\<close> and
  an error message, and neither the mint address nor the first signature is part of the
  response. The handler has no partial-success response.
\<close>

theorem phase2_failure_is_plain_failure:
  assumes "reaches_create_token w req backend user"
    and "funded w backend lamports"
    and "fst (phase1 w (body req) backend (keypairGenerate w) lamports) = Continue sig"
    and "prePurchaseAmount (body req) = Some x" and "0 < x"
    and "fst (phase2 w x backend (keypairGenerate w) user) = Throw e"
  shows "fst (handler w req) = catch_block e
       \<and> status (fst (handler w req)) = 500
       \<and> \<not> success (fst (handler w req))
       \<and> mintAddress (fst (handler w req)) = None
       \<and> signature (fst (handler w req)) = None"
proof -
  obtain t1 where p1: "phase1 w (body req) backend (keypairGenerate w) lamports = (Continue sig, t1)"
    using assms(3) by (cases "phase1 w (body req) backend (keypairGenerate w) lamports") simp
  obtain t2 where p2: "phase2 w x backend (keypairGenerate w) user = (Throw e, t2)"
    using assms(6) by (cases "phase2 w x backend (keypairGenerate w) user") simp
  have "fst (handler w req) = catch_block e"
    using assms(4,5) p1 p2
    by (simp add: handler_reaches_create_token [OF assms(1)] create_token_funded [OF assms(2)])
  then show ?thesis by (simp add: catch_block_fields)
qed

text \<open>The hypotheses hold in the world whose cluster refuses the second submission.\<close>

theorem phase2_failure_is_plain_failure_witness:
  "reaches_create_token world_phase2_rejected (post sample_body) ''Backend'' ''User''
   \<and> funded world_phase2_rejected ''Backend'' 1461600
   \<and> fst (phase1 world_phase2_rejected (body (post sample_body)) ''Backend''
            (keypairGenerate world_phase2_rejected) 1461600) = Continue ''sig1''
   \<and> prePurchaseAmount (body (post sample_body)) = Some 1000
   \<and> fst (phase2 world_phase2_rejected 1000 ''Backend''
            (keypairGenerate world_phase2_rejected) ''User'')
       = Throw (Some ''failed to send transaction'')
   \<and> status (fst (handler world_phase2_rejected (post sample_body))) = 500
   \<and> mintAddress (fst (handler world_phase2_rejected (post sample_body))) = None"
proof -
  have h1: "reaches_create_token world_phase2_rejected (post sample_body) ''Backend'' ''User''"
    by (simp add: world_phase2_rejected_def eval_defs)
  have h2: "funded world_phase2_rejected ''Backend'' 1461600"
    by (simp add: world_phase2_rejected_def eval_defs)
  have h3: "fst (phase1 world_phase2_rejected (body (post sample_body)) ''Backend''
            (keypairGenerate world_phase2_rejected) 1461600) = Continue ''sig1''"
    by (simp add: world_phase2_rejected_def eval_defs)
  have h4: "prePurchaseAmount (body (post sample_body)) = Some 1000"
    by (simp add: eval_defs)
  have h5: "(0::rat) < 1000" by simp
  have h6: "fst (phase2 world_phase2_rejected 1000 ''Backend''
            (keypairGenerate world_phase2_rejected) ''User'')
       = Throw (Some ''failed to send transaction'')"
    by (simp add: world_phase2_rejected_def eval_defs BigInt_1000)
  show ?thesis
    using h1 h2 h3 h4 h6 phase2_failure_is_plain_failure [OF h1 h2 h3 h4 h5 h6] by blast
qed

text \<open>
  The claim as stated fails there: phase 1 is confirmed, both transactions were handed
  to the cluster, and the response is the plain failure without a mint address.
\<close>

theorem phase2_rejected_counterexample:
  "NetConfirmTransaction ''sig1'' ''hash'' 100
     \<in> set (snd (handler world_phase2_rejected (post sample_body)))
   \<and> length (submissions (snd (handler world_phase2_rejected (post sample_body)))) = 2
   \<and> fst (handler world_phase2_rejected (post sample_body))
       = failure 500 ''failed to send transaction''
   \<and> mintAddress (fst (handler world_phase2_rejected (post sample_body))) = None"
  by (simp add: world_phase2_rejected_def eval_defs BigInt_1000)

subsection \<open>The size ceiling\<close>










subsection \<open>The pre-purchase amount\<close>

lemma validate_negative:
  assumes "prePurchaseAmount b = Some x" and "x < 0"
  shows "\<exists>msg. validate b = Some (failure 400 msg)"
  using assms by (auto simp: validate_def)

text \<open>
  C3 (as amended): every POST request whose \<open>prePurchaseAmount\<close> is negative is answered
  with HTTP 400 and \<open>success = false\<close> before any instruction is built and before any
  network call (the trace is empty). The handler checks neither that the amount is an
  integer nor that it stays below \<open>MAX_PREPURCHASE_AMOUNT\<close>; only the client form
  compares the amount with that constant.
\<close>

theorem negative_amount_rejected:
  assumes "req_method req = ''POST''"
    and "prePurchaseAmount (body req) = Some x" and "x < 0"
  shows "status (fst (handler w req)) = 400
       \<and> \<not> success (fst (handler w req))
       \<and> snd (handler w req) = []"
proof -
  obtain msg where "validate (body req) = Some (failure 400 msg)"
    using validate_negative [OF assms(2,3)] by blast
  then show ?thesis
    using assms(1) by (simp add: handler_def try_block_def failure_def)
qed

theorem negative_amount_rejected_witness:
  "req_method (post (sample_body\<lparr>prePurchaseAmount := Some (- 5)\<rparr>)) = ''POST''
   \<and> prePurchaseAmount (body (post (sample_body\<lparr>prePurchaseAmount := Some (- 5)\<rparr>))) = Some (- 5)
   \<and> (- 5 :: rat) < 0
   \<and> status (fst (handler world_ok (post (sample_body\<lparr>prePurchaseAmount := Some (- 5)\<rparr>)))) = 400
   \<and> snd (handler world_ok (post (sample_body\<lparr>prePurchaseAmount := Some (- 5)\<rparr>))) = []"
proof -
  have m: "req_method (post (sample_body\<lparr>prePurchaseAmount := Some (- 5)\<rparr>)) = ''POST''"
    by (simp add: post_def)
  have a: "prePurchaseAmount (body (post (sample_body\<lparr>prePurchaseAmount := Some (- 5)\<rparr>)))
             = Some (- 5)"
    by (simp add: post_def)
  have n: "(- 5 :: rat) < 0" by simp
  show ?thesis
    using m a n negative_amount_rejected [OF m a n, of world_ok] by blast
qed

lemma BigInt_2000000000: "BigInt 2000000000 = Some 2000000000"
  using BigInt_of_int [of 2000000000] by simp

lemma BigInt_three_halves: "BigInt (3 / 2) = None"
  by code_simp

text \<open>
  The claim as stated fails on both other counts: an amount of twice the configured
  maximum is accepted and minted, and the amount \<open>3/2\<close> passes validation, lets phase 1
  be submitted, and ends in HTTP 500 when \<open>BigInt\<close> throws.
\<close>

theorem amount_not_bounded_counterexample:
  "MAX_PREPURCHASE_AMOUNT < 2000000000
   \<and> status (fst (handler world_ok (post (sample_body\<lparr>prePurchaseAmount := Some 2000000000\<rparr>))))
       = 200
   \<and> mint_to_amounts (built_instructions
        (snd (handler world_ok (post (sample_body\<lparr>prePurchaseAmount := Some 2000000000\<rparr>)))))
       = [2000000000000000000]
   \<and> status (fst (handler world_ok (post (sample_body\<lparr>prePurchaseAmount := Some (3 / 2)\<rparr>))))
       = 500
   \<and> submissions
        (snd (handler world_ok (post (sample_body\<lparr>prePurchaseAmount := Some (3 / 2)\<rparr>))))
       = [replicate 500 0]"
  by (simp add: eval_defs MAX_PREPURCHASE_AMOUNT_def BigInt_2000000000 BigInt_three_halves)

subsection \<open>The description\<close>

text \<open>
  C4: a description longer than 200 characters does not make the handler reject the
  request, and the warning is part of the response; but the description is not
  truncated. With a description of 201 characters the response carries the warning
  \<open>Description truncated to 200 characters\<close> next to all 201 characters.
\<close>

theorem long_description_not_truncated:
  "length (replicate 201 (CHR ''a'')) = 201
   \<and> status (fst (handler world_ok
        (post (sample_body\<lparr>description := Some (replicate 201 (CHR ''a''))\<rparr>)))) = 200
   \<and> res_description (fst (handler world_ok
        (post (sample_body\<lparr>description := Some (replicate 201 (CHR ''a''))\<rparr>))))
       = Some (replicate 201 (CHR ''a''))
   \<and> warnings (fst (handler world_ok
        (post (sample_body\<lparr>description := Some (replicate 201 (CHR ''a''))\<rparr>))))
       = Some [''Description truncated to 200 characters to fit transaction size limit'']"
  by (simp add: eval_defs BigInt_1000)

subsection \<open>Successful responses\<close>

lemma validate_None_symbol:
  assumes "validate b = None"
  shows "symbol b = Some (data_symbol (metadataData b))"
  using assms
  by (cases "symbol b")
     (auto simp: validate_def metadataData_def falsy_def length_gt_def str_of_def substring0_def
           split: if_splits)

lemma validate_Some_failure:
  assumes "validate b = Some r"
  shows "\<not> success r"
  using assms by (auto simp: validate_def failure_def split: if_splits)

lemma phase1_Return_failure:
  assumes "phase1 w b backend mint lamports = (Return r, t)"
  shows "\<not> success r"
  using assms
  by (auto simp: phase1_def Let_def failure_def split: sum.splits prod.splits if_splits)

lemma phase2_never_returns:
  assumes "phase2 w x backend mint user = (Return r, t)"
  shows False
  using assms
  by (auto simp: phase2_def Let_def split: sum.splits prod.splits option.splits)

lemma handler_success_imp:
  "success (fst (handler w req)) \<longrightarrow>
     (\<exists>mint sig second. fst (handler w req) = success_response (body req) mint sig second)"
  by (auto simp: handler_def try_block_def create_token_def Let_def failure_def
        catch_block_fields
           split: sum.split prod.split option.split outcome.split
           dest: validate_Some_failure phase1_Return_failure phase2_never_returns)

lemma handler_success:
  assumes "success (fst (handler w req))"
  shows "\<exists>mint sig second. fst (handler w req) = success_response (body req) mint sig second"
  using assms handler_success_imp by blast

lemma handler_success_echo:
  assumes "success (fst (handler w req))"
  shows "res_symbol (fst (handler w req)) = symbol (body req)
       \<and> res_description (fst (handler w req)) = description (body req)"
proof -
  obtain mint sig second
    where "fst (handler w req) = success_response (body req) mint sig second"
    using handler_success [OF assms] by blast
  then show ?thesis by (simp add: success_response_def)
qed

subsection \<open>The symbol\<close>

text \<open>
  C5 (as amended): the handler leaves the case of the symbol as it was sent. Every
  successful response echoes the symbol of the request unchanged, and every metadata
  instruction the handler builds carries that same symbol (\<open>substring(0, 10)\<close> changes
  nothing once validation has passed). Upper-casing is done by the client form before it
  posts, not by the handler.
\<close>

theorem symbol_passed_unchanged:
  "(success (fst (handler w req)) \<longrightarrow> res_symbol (fst (handler w req)) = symbol (body req))
   \<and> (\<forall>d \<in> set (metadata_payloads (built_instructions (snd (handler w req)))).
         symbol (body req) = Some (data_symbol d))"
  using handler_payloads [of w req] handler_success_echo [of w req]
  by (auto dest: validate_None_symbol)

theorem symbol_passed_unchanged_witness:
  "success (fst (handler world_ok (post sample_body)))
   \<and> res_symbol (fst (handler world_ok (post sample_body))) = Some ''TEST''
   \<and> map data_symbol
         (metadata_payloads (built_instructions (snd (handler world_ok (post sample_body)))))
       = [''TEST'']"
proof -
  have s: "success (fst (handler world_ok (post sample_body)))"
    by (simp add: eval_defs BigInt_1000)
  have y: "symbol (body (post sample_body)) = Some ''TEST''"
    by (simp add: eval_defs)
  have p: "length (metadata_payloads (built_instructions
             (snd (handler world_ok (post sample_body))))) = 1"
    by (simp add: eval_defs BigInt_1000)
  have u: "\<forall>d \<in> set (metadata_payloads (built_instructions
             (snd (handler world_ok (post sample_body))))).
             symbol (body (post sample_body)) = Some (data_symbol d)"
    using symbol_passed_unchanged [of world_ok "post sample_body"] by blast
  have m: "map data_symbol (metadata_payloads (built_instructions
             (snd (handler world_ok (post sample_body))))) = [''TEST'']"
    using p u y
    by (cases "metadata_payloads (built_instructions (snd (handler world_ok (post sample_body))))")
       auto
  show ?thesis
    using s y m symbol_passed_unchanged [of world_ok "post sample_body"] by simp
qed

text \<open>
  The claim as stated fails for a lower-case symbol: \<open>test\<close> is accepted, goes into the
  metadata instruction and comes back in the response as \<open>test\<close>, not \<open>TEST\<close>.
\<close>

theorem symbol_not_upper_cased_counterexample:
  "toUpperCase ''test'' = ''TEST''
   \<and> success (fst (handler world_ok (post (sample_body\<lparr>symbol := Some ''test''\<rparr>))))
   \<and> res_symbol (fst (handler world_ok (post (sample_body\<lparr>symbol := Some ''test''\<rparr>))))
       = Some ''test''
   \<and> map data_symbol (metadata_payloads (built_instructions
        (snd (handler world_ok (post (sample_body\<lparr>symbol := Some ''test''\<rparr>))))))
       = [''test'']"
  by (simp add: eval_defs BigInt_1000 toUpperCase_def upper_char_def)

subsection \<open>The pre-flight balance check\<close>

lemma handler_trace:
  "snd (handler w req) = []
   \<or> (\<exists>backend user. reaches_create_token w req backend user
         \<and> snd (handler w req) = snd (create_token w (body req) backend user))"
  by (simp add: handler_def try_block_def reaches_create_token_def
           split: sum.split prod.split option.split)

lemma create_token_built_funded:
  "(built_instructions (snd (create_token w b backend user)) = []
      \<and> submissions (snd (create_token w b backend user)) = [])
   \<or> (\<exists>lamports. funded w backend lamports)"
proof (cases "getMinimumBalanceForRentExemptMint w")
  case (Inl e)
  then show ?thesis by (simp add: create_token_def)
next
  case rent: (Inr lamports)
  show ?thesis
  proof (cases "getBalance w backend")
    case (Inl e)
    with rent show ?thesis by (simp add: create_token_def Let_def)
  next
    case bal: (Inr backendBalance)
    show ?thesis
    proof (cases "backendBalance < lamports + FEE_BUFFER")
      case True
      with rent bal show ?thesis by (simp add: create_token_def Let_def)
    next
      case False
      with rent bal have "funded w backend lamports" by (simp add: funded_def)
      then show ?thesis by blast
    qed
  qed
qed

lemma handler_built_funded:
  "(built_instructions (snd (handler w req)) = [] \<and> submissions (snd (handler w req)) = [])
   \<or> (\<exists>backend lamports. funded w backend lamports)"
  using handler_trace [of w req] create_token_built_funded [of w "body req"]
  by (metis built_instructions.simps(1) submissions.simps(1))

text \<open>
  C7: in every run the custodial balance is queried before the first instruction is
  added to a transaction; an instruction is built or a transaction submitted only if the
  balance query answered at least the rent-exempt minimum plus the fee buffer of
  \<open>10^7\<close> lamports; and when a request reaches the check with a smaller balance, the
  handler answers HTTP 400 with the insufficient-funds message after exactly the rent and
  balance queries, with no instruction built and nothing submitted.
\<close>

theorem balance_checked_before_phase1:
  "balance_queried_first (snd (handler w req))
   \<and> (built_instructions (snd (handler w req)) \<noteq> [] \<or> submissions (snd (handler w req)) \<noteq> []
        \<longrightarrow> (\<exists>backend lamports. funded w backend lamports))
   \<and> (reaches_create_token w req backend user
        \<and> getMinimumBalanceForRentExemptMint w = Inr lamports
        \<and> getBalance w backend = Inr backendBalance
        \<and> backendBalance < lamports + FEE_BUFFER
      \<longrightarrow> handler w req
            = (failure 400 (''Backend wallet has insufficient SOL (need at least ''
                              @ toFixed3 w (lamports + FEE_BUFFER)
                              @ '' SOL). Please fund the backend wallet.''),
               [NetGetMinimumBalanceForRentExemption, NetGetBalance backend])
          \<and> built_instructions (snd (handler w req)) = []
          \<and> submissions (snd (handler w req)) = [])"
proof (intro conjI impI)
  show "balance_queried_first (snd (handler w req))"
    by (rule balance_queried_first_handler)
next
  assume "built_instructions (snd (handler w req)) \<noteq> [] \<or> submissions (snd (handler w req)) \<noteq> []"
  then show "\<exists>backend lamports. funded w backend lamports"
    using handler_built_funded [of w req] by blast
next
  assume a: "reaches_create_token w req backend user
        \<and> getMinimumBalanceForRentExemptMint w = Inr lamports
        \<and> getBalance w backend = Inr backendBalance
        \<and> backendBalance < lamports + FEE_BUFFER"
  then have r: "reaches_create_token w req backend user" by simp
  from a have c: "create_token w (body req) backend user
      = (Inr (failure 400 (''Backend wallet has insufficient SOL (need at least ''
                              @ toFixed3 w (lamports + FEE_BUFFER)
                              @ '' SOL). Please fund the backend wallet.'')),
         [NetGetMinimumBalanceForRentExemption, NetGetBalance backend])"
    by (simp add: create_token_def Let_def)
  show "handler w req
            = (failure 400 (''Backend wallet has insufficient SOL (need at least ''
                              @ toFixed3 w (lamports + FEE_BUFFER)
                              @ '' SOL). Please fund the backend wallet.''),
               [NetGetMinimumBalanceForRentExemption, NetGetBalance backend])"
    by (simp add: handler_reaches_create_token [OF r] c)
  then show "built_instructions (snd (handler w req)) = []"
    and "submissions (snd (handler w req)) = []"
    by simp_all
qed

theorem balance_checked_before_phase1_witness:
  "reaches_create_token world_poor (post sample_body) ''Backend'' ''User''
   \<and> getMinimumBalanceForRentExemptMint world_poor = Inr 1461600
   \<and> getBalance world_poor ''Backend'' = Inr 11461599
   \<and> (11461599 :: nat) < 1461600 + FEE_BUFFER
   \<and> status (fst (handler world_poor (post sample_body))) = 400
   \<and> built_instructions (snd (handler world_poor (post sample_body))) = []
   \<and> built_instructions (snd (handler world_ok (post sample_body))) \<noteq> []
   \<and> (\<exists>backend lamports. funded world_ok backend lamports)"
proof -
  have h: "reaches_create_token world_poor (post sample_body) ''Backend'' ''User''
   \<and> getMinimumBalanceForRentExemptMint world_poor = Inr 1461600
   \<and> getBalance world_poor ''Backend'' = Inr 11461599
   \<and> (11461599 :: nat) < 1461600 + FEE_BUFFER"
    by (simp add: world_poor_def eval_defs)
  have b: "built_instructions (snd (handler world_ok (post sample_body))) \<noteq> []"
    by (simp add: eval_defs BigInt_1000)
  have "handler world_poor (post sample_body)
            = (failure 400 (''Backend wallet has insufficient SOL (need at least ''
                              @ toFixed3 world_poor (1461600 + FEE_BUFFER)
                              @ '' SOL). Please fund the backend wallet.''),
               [NetGetMinimumBalanceForRentExemption, NetGetBalance ''Backend''])"
    using h balance_checked_before_phase1
            [of world_poor "post sample_body" "''Backend''" "''User''" 1461600 11461599]
    by blast
  moreover have "\<exists>backend lamports. funded world_ok backend lamports"
    using b balance_checked_before_phase1 [of world_ok "post sample_body"] by blast
  ultimately show ?thesis using h b by (simp add: failure_def)
qed

subsection \<open>The minted amount\<close>

lemma mint_amount_of_int: "mint_amount (of_int N) = Some (N * 10 ^ 9)"
  by (simp add: mint_amount_def BigInt_of_int decimals_def)

lemma phase1_facts_amounts:
  assumes "phase1 w b backend mint lamports = (r, t)"
  shows "mint_to_amounts (built_instructions t) = []
       \<and> (\<forall>resp. r = Return resp \<longrightarrow> \<not> success resp)"
  using phase1_trace_built [OF assms] phase1_Return_failure [of w b backend mint lamports _ t] assms
  by (auto simp: tx1_amounts)

lemma phase2_facts_amounts:
  assumes "phase2 w x backend mint user = (r, t)"
  shows "(\<forall>resp. r \<noteq> Return resp)
       \<and> ((mint_to_amounts (built_instructions t) = [] \<and> (\<forall>v. r \<noteq> Continue v))
           \<or> (\<exists>amount. mint_amount x = Some amount
                  \<and> mint_to_amounts (built_instructions t) = [amount]))"
  using phase2_trace_amounts [OF assms] phase2_never_returns [of w x backend mint user _ t] assms
  by blast

lemma handler_amounts:
  "(mint_to_amounts (built_instructions (snd (handler w req))) = []
      \<and> \<not> (success (fst (handler w req))
            \<and> (\<exists>x. prePurchaseAmount (body req) = Some x \<and> 0 < x)))
   \<or> (\<exists>x amount. prePurchaseAmount (body req) = Some x \<and> mint_amount x = Some amount
         \<and> mint_to_amounts (built_instructions (snd (handler w req))) = [amount])"
  by (auto simp: handler_def try_block_def create_token_def Let_def failure_def
        catch_block_fields trace_simps
           split: sum.split prod.split option.split outcome.split
           dest: validate_Some_failure
           dest!: phase1_facts_amounts phase2_facts_amounts)

lemma phase2_builds_mint_to:
  assumes "getLatestBlockhash w 1 = Inr (blockhash2, height2)"
    and "getAssociatedTokenAddress w mint user = Inr uta"
    and "mint_amount x = Some amount"
  shows "built_instructions (snd (phase2 w x backend mint user))
           = [SetComputeUnitLimit 200000,
              CreateAssociatedTokenAccount backend uta user mint TOKEN_PROGRAM_ID,
              MintTo mint uta backend amount TOKEN_PROGRAM_ID]"
  using assms
  by (simp add: phase2_def Let_def trace_simps split: sum.split)

lemma handler_trace_phase2:
  assumes "reaches_create_token w req backend user"
    and "funded w backend lamports"
    and "phase1 w (body req) backend (keypairGenerate w) lamports = (Continue sig, t1)"
    and "prePurchaseAmount (body req) = Some x" and "0 < x"
  shows "snd (handler w req)
           = [NetGetMinimumBalanceForRentExemption, NetGetBalance backend] @ t1
               @ snd (phase2 w x backend (keypairGenerate w) user)"
proof (cases "phase2 w x backend (keypairGenerate w) user")
  case (Pair r t2)
  then show ?thesis
    using assms(3,4,5)
    by (cases r)
       (simp_all add: handler_reaches_create_token [OF assms(1)]
          create_token_funded [OF assms(2)])
qed

text \<open>
  C8: for a request whose \<open>prePurchaseAmount\<close> is the integer \<open>N > 0\<close>, the amount
  computed at line 357 is \<open>N * 10^9\<close>, on unbounded integers. No mint-to instruction is
  ever built with another amount; whenever the request succeeds exactly one mint-to
  instruction was built, with that amount; and as soon as phase 1 is confirmed and the
  second blockhash and the associated token address are obtained, the mint-to instruction
  for the new mint, the requester's token account and the custodial authority is built
  with the amount \<open>N * 10^9\<close>, whatever happens to the transaction afterwards. For
  \<open>N\<close> within \<open>MAX_PREPURCHASE_AMOUNT\<close> the amount fits the 64-bit field of the
  instruction; the handler itself does not bound \<open>N\<close>.
\<close>

theorem mint_to_amount_exact:
  assumes "prePurchaseAmount (body req) = Some (of_int N)" and "0 < N"
  shows "mint_amount (of_int N) = Some (N * 10 ^ 9)
       \<and> set (mint_to_amounts (built_instructions (snd (handler w req)))) \<subseteq> {N * 10 ^ 9}
       \<and> (success (fst (handler w req))
            \<longrightarrow> mint_to_amounts (built_instructions (snd (handler w req))) = [N * 10 ^ 9])
       \<and> (reaches_create_token w req backend user
            \<and> funded w backend lamports
            \<and> fst (phase1 w (body req) backend (keypairGenerate w) lamports) = Continue sig
            \<and> getLatestBlockhash w 1 = Inr (blockhash2, height2)
            \<and> getAssociatedTokenAddress w (keypairGenerate w) user = Inr uta
          \<longrightarrow> MintTo (keypairGenerate w) uta backend (N * 10 ^ 9) TOKEN_PROGRAM_ID
                \<in> set (built_instructions (snd (handler w req)))
              \<and> mint_to_amounts (built_instructions (snd (handler w req))) = [N * 10 ^ 9])
       \<and> (of_int N \<le> MAX_PREPURCHASE_AMOUNT \<longrightarrow> N * 10 ^ 9 < 2 ^ 64)"
proof (intro conjI impI)
  show "mint_amount (of_int N) = Some (N * 10 ^ 9)"
    by (rule mint_amount_of_int)
next
  show "set (mint_to_amounts (built_instructions (snd (handler w req)))) \<subseteq> {N * 10 ^ 9}"
    using assms handler_amounts [of w req] by (auto simp: mint_amount_of_int)
next
  assume "success (fst (handler w req))"
  then show "mint_to_amounts (built_instructions (snd (handler w req))) = [N * 10 ^ 9]"
    using assms handler_amounts [of w req] by (auto simp: mint_amount_of_int)
next
  assume a: "reaches_create_token w req backend user
            \<and> funded w backend lamports
            \<and> fst (phase1 w (body req) backend (keypairGenerate w) lamports) = Continue sig
            \<and> getLatestBlockhash w 1 = Inr (blockhash2, height2)
            \<and> getAssociatedTokenAddress w (keypairGenerate w) user = Inr uta"
  then obtain t1
    where p1: "phase1 w (body req) backend (keypairGenerate w) lamports = (Continue sig, t1)"
    by (cases "phase1 w (body req) backend (keypairGenerate w) lamports") simp
  from a have r: "reaches_create_token w req backend user" and f: "funded w backend lamports"
    by simp_all
  have x: "(0 :: rat) < of_int N" using assms(2) by simp
  have t: "snd (handler w req)
           = [NetGetMinimumBalanceForRentExemption, NetGetBalance backend] @ t1
               @ snd (phase2 w (of_int N) backend (keypairGenerate w) user)"
    by (rule handler_trace_phase2 [OF r f p1 assms(1) x])
  have b2: "built_instructions (snd (phase2 w (of_int N) backend (keypairGenerate w) user))
           = [SetComputeUnitLimit 200000,
              CreateAssociatedTokenAccount backend uta user (keypairGenerate w) TOKEN_PROGRAM_ID,
              MintTo (keypairGenerate w) uta backend (N * 10 ^ 9) TOKEN_PROGRAM_ID]"
    using a by (simp add: phase2_builds_mint_to mint_amount_of_int)
  have b1: "mint_to_amounts (built_instructions t1) = []"
    using phase1_facts_amounts [OF p1] by simp
  show "MintTo (keypairGenerate w) uta backend (N * 10 ^ 9) TOKEN_PROGRAM_ID
          \<in> set (built_instructions (snd (handler w req)))"
    by (simp add: t trace_simps b2)
  show "mint_to_amounts (built_instructions (snd (handler w req))) = [N * 10 ^ 9]"
    by (simp add: t trace_simps b1 b2)
next
  assume "of_int N \<le> MAX_PREPURCHASE_AMOUNT"
  then have "N \<le> 1000000000" by (simp add: MAX_PREPURCHASE_AMOUNT_def)
  then have "N * 10 ^ 9 \<le> 1000000000 * 10 ^ 9" by simp
  then show "N * 10 ^ 9 < 2 ^ 64" by simp
qed

theorem mint_to_amount_exact_witness:
  "prePurchaseAmount (body (post sample_body)) = Some (of_int 1000)
   \<and> (0 :: int) < 1000
   \<and> reaches_create_token world_ok (post sample_body) ''Backend'' ''User''
   \<and> funded world_ok ''Backend'' 1461600
   \<and> fst (phase1 world_ok (body (post sample_body)) ''Backend'' (keypairGenerate world_ok)
            1461600) = Continue ''sig1''
   \<and> getLatestBlockhash world_ok 1 = Inr (''hash'', 101)
   \<and> getAssociatedTokenAddress world_ok (keypairGenerate world_ok) ''User'' = Inr ''Ata''
   \<and> of_int 1000 \<le> MAX_PREPURCHASE_AMOUNT
   \<and> success (fst (handler world_ok (post sample_body)))
   \<and> MintTo ''Mint'' ''Ata'' ''Backend'' 1000000000000 TOKEN_PROGRAM_ID
        \<in> set (built_instructions (snd (handler world_ok (post sample_body))))
   \<and> mint_to_amounts (built_instructions (snd (handler world_ok (post sample_body))))
       = [1000000000000]
   \<and> (1000000000000 :: int) < 2 ^ 64"
proof -
  have a: "prePurchaseAmount (body (post sample_body)) = Some (of_int 1000)"
    by (simp add: eval_defs)
  have n: "(0 :: int) < 1000" by simp
  have h: "reaches_create_token world_ok (post sample_body) ''Backend'' ''User''
   \<and> funded world_ok ''Backend'' 1461600
   \<and> fst (phase1 world_ok (body (post sample_body)) ''Backend'' (keypairGenerate world_ok)
            1461600) = Continue ''sig1''
   \<and> getLatestBlockhash world_ok 1 = Inr (''hash'', 101)
   \<and> getAssociatedTokenAddress world_ok (keypairGenerate world_ok) ''User'' = Inr ''Ata''"
    by (simp add: eval_defs)
  have k: "keypairGenerate world_ok = ''Mint''" by (simp add: world_ok_def)
  have m: "of_int 1000 \<le> MAX_PREPURCHASE_AMOUNT" by (simp add: MAX_PREPURCHASE_AMOUNT_def)
  have s: "success (fst (handler world_ok (post sample_body)))"
    by (simp add: eval_defs BigInt_1000)
  have "MintTo (keypairGenerate world_ok) ''Ata'' ''Backend'' (1000 * 10 ^ 9) TOKEN_PROGRAM_ID
          \<in> set (built_instructions (snd (handler world_ok (post sample_body))))
        \<and> mint_to_amounts (built_instructions (snd (handler world_ok (post sample_body))))
            = [1000 * 10 ^ 9]"
    using h mint_to_amount_exact
              [OF a n, of world_ok "''Backend''" "''User''" 1461600 "''sig1''" "''hash''" 101
                  "''Ata''"]
    by blast
  then show ?thesis using a n h k m s by simp
qed

subsection \<open>An absent pre-purchase amount\<close>

lemma validate_absent_amount:
  assumes "prePurchaseAmount b = None"
  shows "validate (b\<lparr>prePurchaseAmount := Some 0\<rparr>) = validate b"
  using assms by (simp add: validate_def)

lemma tx1_of_ignores_amount:
  "tx1_of w (b\<lparr>prePurchaseAmount := v\<rparr>) backend mint lamports blockhash
     = tx1_of w b backend mint lamports blockhash"
  by (simp add: tx1_of_def tx1_instructions_def metadataData_def)

lemma phase1_ignores_amount:
  "phase1 w (b\<lparr>prePurchaseAmount := v\<rparr>) backend mint lamports = phase1 w b backend mint lamports"
  unfolding phase1_def tx1_of_ignores_amount by (rule refl)

lemma success_response_absent_amount:
  assumes "prePurchaseAmount b = None"
  shows "(success_response (b\<lparr>prePurchaseAmount := Some 0\<rparr>) mint sig second)
           \<lparr>res_prePurchaseAmount := None\<rparr>
         = success_response b mint sig second"
  using assms by (simp add: success_response_def collect_warnings_def)

lemma failure_no_amount: "(failure code msg)\<lparr>res_prePurchaseAmount := None\<rparr> = failure code msg"
  by (simp add: failure_def)

lemma catch_block_no_amount: "(catch_block e)\<lparr>res_prePurchaseAmount := None\<rparr> = catch_block e"
  by (simp add: catch_block_def Let_def failure_no_amount)

lemma validate_Some_no_amount:
  assumes "validate b = Some r"
  shows "r\<lparr>res_prePurchaseAmount := None\<rparr> = r"
  using assms by (auto simp: validate_def failure_no_amount split: if_splits)

lemma phase1_Return_no_amount:
  assumes "phase1 w b backend mint lamports = (Return r, t)"
  shows "r\<lparr>res_prePurchaseAmount := None\<rparr> = r"
  using assms
  by (auto simp: phase1_def Let_def failure_no_amount split: sum.splits prod.splits if_splits)

lemma handler_absent_amount:
  assumes "prePurchaseAmount (body req) = None"
  shows "handler w req
         = (let (r, t) = handler w (req\<lparr>body := (body req)\<lparr>prePurchaseAmount := Some 0\<rparr>\<rparr>)
            in (r\<lparr>res_prePurchaseAmount := None\<rparr>, t))"
  using assms
  by (auto simp: handler_def try_block_def create_token_def Let_def validate_absent_amount
        phase1_ignores_amount success_response_absent_amount failure_no_amount
        catch_block_no_amount
           split: sum.split prod.split option.split outcome.split
           dest: validate_Some_no_amount phase1_Return_no_amount)

lemma validate_Some_fields:
  assumes "validate b = Some r"
  shows "mintSignature r = None \<and> userTokenAccount r = None"
  using assms by (auto simp: validate_def failure_def split: if_splits)

lemma phase1_facts_single:
  assumes "phase1 w b backend mint lamports = (r, t)"
  shows "mint_to_amounts (built_instructions t) = []
       \<and> length (submissions t) \<le> 1
       \<and> (\<forall>resp. r = Return resp \<longrightarrow> mintSignature resp = None \<and> userTokenAccount resp = None)"
proof -
  have "mint_to_amounts (built_instructions t) = []"
    using phase1_facts_amounts [OF assms] by simp
  moreover have "length (submissions t) \<le> 1"
    using phase1_trace_submissions [OF assms] by auto
  moreover have "\<forall>resp. r = Return resp \<longrightarrow> mintSignature resp = None \<and> userTokenAccount resp = None"
    using assms
    by (auto simp: phase1_def Let_def failure_def split: sum.splits prod.splits if_splits)
  ultimately show ?thesis by simp
qed

lemma handler_absent_amount_single_phase:
  assumes "prePurchaseAmount (body req) = None"
  shows "mint_to_amounts (built_instructions (snd (handler w req))) = []
       \<and> length (submissions (snd (handler w req))) \<le> 1
       \<and> mintSignature (fst (handler w req)) = None
       \<and> userTokenAccount (fst (handler w req)) = None"
  using assms
  by (auto simp: handler_def try_block_def create_token_def Let_def failure_def
        catch_block_fields trace_simps success_response_def
           split: sum.split prod.split option.split outcome.split
           dest: validate_Some_fields
           dest!: phase1_facts_single)

text \<open>
  C9: a request that leaves \<open>prePurchaseAmount\<close> out is processed as the same request
  with the amount 0: the handler does exactly the same things and sends the same
  response, except that the echoed amount is absent. No mint-to instruction is built, at
  most one transaction is submitted, and the response has neither a second signature nor
  a funded-account address. When the request reaches phase 1 and phase 1 is confirmed,
  the response is the single-phase success, HTTP 200.
\<close>

theorem absent_amount_processed_as_zero:
  assumes "prePurchaseAmount (body req) = None"
  shows "snd (handler w req)
           = snd (handler w (req\<lparr>body := (body req)\<lparr>prePurchaseAmount := Some 0\<rparr>\<rparr>))
       \<and> fst (handler w req)
           = (fst (handler w (req\<lparr>body := (body req)\<lparr>prePurchaseAmount := Some 0\<rparr>\<rparr>)))
               \<lparr>res_prePurchaseAmount := None\<rparr>
       \<and> mint_to_amounts (built_instructions (snd (handler w req))) = []
       \<and> length (submissions (snd (handler w req))) \<le> 1
       \<and> mintSignature (fst (handler w req)) = None
       \<and> userTokenAccount (fst (handler w req)) = None
       \<and> (reaches_create_token w req backend user
            \<and> funded w backend lamports
            \<and> fst (phase1 w (body req) backend (keypairGenerate w) lamports) = Continue sig
          \<longrightarrow> fst (handler w req) = success_response (body req) (keypairGenerate w) sig None
              \<and> status (fst (handler w req)) = 200
              \<and> success (fst (handler w req)))"
proof -
  have zero: "handler w req
         = (let (r, t) = handler w (req\<lparr>body := (body req)\<lparr>prePurchaseAmount := Some 0\<rparr>\<rparr>)
            in (r\<lparr>res_prePurchaseAmount := None\<rparr>, t))"
    by (rule handler_absent_amount [OF assms])
  have single: "mint_to_amounts (built_instructions (snd (handler w req))) = []
       \<and> length (submissions (snd (handler w req))) \<le> 1
       \<and> mintSignature (fst (handler w req)) = None
       \<and> userTokenAccount (fst (handler w req)) = None"
    by (rule handler_absent_amount_single_phase [OF assms])
  have ok: "fst (handler w req) = success_response (body req) (keypairGenerate w) sig None
              \<and> status (fst (handler w req)) = 200
              \<and> success (fst (handler w req))"
    if r: "reaches_create_token w req backend user"
      and f: "funded w backend lamports"
      and p: "fst (phase1 w (body req) backend (keypairGenerate w) lamports) = Continue sig"
  proof -
    obtain t1 where "phase1 w (body req) backend (keypairGenerate w) lamports = (Continue sig, t1)"
      using p by (cases "phase1 w (body req) backend (keypairGenerate w) lamports") simp
    then have "fst (handler w req) = success_response (body req) (keypairGenerate w) sig None"
      using assms
      by (simp add: handler_reaches_create_token [OF r] create_token_funded [OF f])
    then show ?thesis by (simp add: success_response_def)
  qed
  have fst_eq: "fst (handler w req)
           = (fst (handler w (req\<lparr>body := (body req)\<lparr>prePurchaseAmount := Some 0\<rparr>\<rparr>)))
               \<lparr>res_prePurchaseAmount := None\<rparr>"
    by (subst zero) (simp add: case_prod_beta Let_def)
  have snd_eq: "snd (handler w req)
           = snd (handler w (req\<lparr>body := (body req)\<lparr>prePurchaseAmount := Some 0\<rparr>\<rparr>))"
    by (subst zero) (simp add: case_prod_beta Let_def)
  show ?thesis using fst_eq snd_eq single ok by blast
qed

theorem absent_amount_processed_as_zero_witness:
  "prePurchaseAmount (body (post no_amount_body)) = None
   \<and> reaches_create_token world_ok (post no_amount_body) ''Backend'' ''User''
   \<and> funded world_ok ''Backend'' 1461600
   \<and> fst (phase1 world_ok (body (post no_amount_body)) ''Backend'' (keypairGenerate world_ok)
            1461600) = Continue ''sig1''
   \<and> status (fst (handler world_ok (post no_amount_body))) = 200
   \<and> success (fst (handler world_ok (post no_amount_body)))
   \<and> mintSignature (fst (handler world_ok (post no_amount_body))) = None
   \<and> userTokenAccount (fst (handler world_ok (post no_amount_body))) = None
   \<and> length (submissions (snd (handler world_ok (post no_amount_body)))) \<le> 1"
proof -
  have a: "prePurchaseAmount (body (post no_amount_body)) = None"
    by (simp add: post_def no_amount_body_def)
  have h: "reaches_create_token world_ok (post no_amount_body) ''Backend'' ''User''
   \<and> funded world_ok ''Backend'' 1461600
   \<and> fst (phase1 world_ok (body (post no_amount_body)) ''Backend'' (keypairGenerate world_ok)
            1461600) = Continue ''sig1''"
    by (simp add: no_amount_body_def eval_defs)
  show ?thesis
    using a h absent_amount_processed_as_zero
                [OF a, of world_ok "''Backend''" "''User''" 1461600 "''sig1''"]
    by blast
qed

subsection \<open>The description is only echoed\<close>

lemma validate_ignores_description:
  "validate (b\<lparr>description := v\<rparr>) = validate b"
  by (simp add: validate_def)

lemma tx1_of_ignores_description:
  "tx1_of w (b\<lparr>description := v\<rparr>) backend mint lamports blockhash
     = tx1_of w b backend mint lamports blockhash"
  by (simp add: tx1_of_def tx1_instructions_def metadataData_def)

lemma phase1_ignores_description:
  "phase1 w (b\<lparr>description := v\<rparr>) backend mint lamports = phase1 w b backend mint lamports"
  unfolding phase1_def tx1_of_ignores_description by (rule refl)

lemma trace_ignores_description:
  "snd (handler w (req\<lparr>body := (body req)\<lparr>description := v\<rparr>\<rparr>)) = snd (handler w req)"
  by (simp add: handler_def try_block_def create_token_def Let_def validate_ignores_description
        phase1_ignores_description
           split: sum.split prod.split option.split outcome.split)

text \<open>
  C10: every metadata instruction the handler builds has the empty string as its
  \<open>uri\<close>; replacing the description of a request by any other value (or none) leaves
  the whole trace unchanged, so no instruction and no submitted transaction depends on
  it; and a successful response echoes the description exactly as it was sent.
\<close>

theorem description_only_echoed:
  "(\<forall>d \<in> set (metadata_payloads (built_instructions (snd (handler w req)))). uri d = [])
   \<and> snd (handler w (req\<lparr>body := (body req)\<lparr>description := v\<rparr>\<rparr>)) = snd (handler w req)
   \<and> (success (fst (handler w req))
        \<longrightarrow> res_description (fst (handler w req)) = description (body req))"
  using handler_payloads [of w req] trace_ignores_description [of w v req]
    handler_success_echo [of w req]
  by (auto simp: metadataData_def)

theorem description_only_echoed_witness:
  "success (fst (handler world_ok (post sample_body)))
   \<and> res_description (fst (handler world_ok (post sample_body))) = Some ''A test token''
   \<and> map uri (metadata_payloads (built_instructions (snd (handler world_ok (post sample_body)))))
       = [[]]
   \<and> snd (handler world_ok
        ((post sample_body)\<lparr>body := (body (post sample_body))\<lparr>description := None\<rparr>\<rparr>))
       = snd (handler world_ok (post sample_body))"
proof -
  have s: "success (fst (handler world_ok (post sample_body)))"
    by (simp add: eval_defs BigInt_1000)
  have d: "description (body (post sample_body)) = Some ''A test token''"
    by (simp add: eval_defs)
  have p: "length (metadata_payloads (built_instructions
             (snd (handler world_ok (post sample_body))))) = 1"
    by (simp add: eval_defs BigInt_1000)
  have u: "\<forall>d \<in> set (metadata_payloads (built_instructions
             (snd (handler world_ok (post sample_body))))). uri d = []"
    using description_only_echoed [of world_ok "post sample_body" None] by blast
  have m: "map uri (metadata_payloads (built_instructions
             (snd (handler world_ok (post sample_body))))) = [[]]"
    using p u
    by (cases "metadata_payloads (built_instructions (snd (handler world_ok (post sample_body))))")
       auto
  show ?thesis
    using s d m description_only_echoed [of world_ok "post sample_body" None] by simp
qed

end
